theory Spec2Isabelle
  imports Complex_Main
begin

section \<open>Values of the Python program\<close>

text \<open>
  The development embeds \<^verbatim>\<open>src/MDAF_benchmarks/objective_function.py\<close>, the class
  \<^verbatim>\<open>ObjectiveFunction\<close>. An exception raised by the Python code is the left summand
  of a result. \<^verbatim>\<open>SystemExit\<close> and \<^verbatim>\<open>KeyboardInterrupt\<close> are not instances of the class
  \<^verbatim>\<open>Exception\<close>, so a clause \<^verbatim>\<open>except Exception\<close> lets them pass.
\<close>

datatype exn =
    ValueError
  | TypeError
  | NameError
  | KeyError
  | IndexError
  | AttributeError
  | OSError
  | EOFError
  | ImportError
  | ZeroDivisionError
  | SystemExit
  | KeyboardInterrupt
  | Exception exn  \<comment> \<open>\<^verbatim>\<open>raise Exception(f"... {e}")\<close>: a plain Exception built from \<^verbatim>\<open>e\<close>\<close>

fun is_Exception :: "exn \<Rightarrow> bool" where
  "is_Exception SystemExit = False"
| "is_Exception KeyboardInterrupt = False"
| "is_Exception e = True"

text \<open>
  A float is \<^verbatim>\<open>nan\<close> or a number, the numbers read as reals. A formula may return
  \<^verbatim>\<open>nan\<close> without raising (\<^verbatim>\<open>np.sqrt\<close> of a negative number does), and
  \<^verbatim>\<open>np.nan\<close> is what \<^verbatim>\<open>parallel_evaluate\<close> fills its results vector with. The
  coordinates of positions and shifts, the noise parameters and the random draws are
  numbers.
\<close>

datatype pyfloat = NaN | Num real

text \<open>Addition of floats: \<^verbatim>\<open>nan\<close> plus anything is \<^verbatim>\<open>nan\<close>.\<close>

fun fadd :: "pyfloat \<Rightarrow> pyfloat \<Rightarrow> pyfloat" where
  "fadd (Num a) (Num b) = Num (a + b)"
| "fadd a b = NaN"

text \<open>
  What a NumPy expression over floats evaluates to: a scalar or a one-dimensional array.
  A position is a one-dimensional array, written as the list of its coordinates.
\<close>

datatype ndvalue = Scalar pyfloat | Array "pyfloat list"

text \<open>Truth value of a Python float: \<^verbatim>\<open>if x\<close>, \<^verbatim>\<open>any(...)\<close>, \<^verbatim>\<open>x or y\<close>.\<close>

definition truthy :: "real \<Rightarrow> bool" where
  "truthy x = (x \<noteq> 0)"

text \<open>
  A binary elementwise operation on two one-dimensional arrays, with NumPy's broadcasting:
  shapes \<^verbatim>\<open>(a,)\<close> and \<^verbatim>\<open>(b,)\<close> fit when \<^verbatim>\<open>a == b\<close> or one of them is 1; otherwise
  NumPy raises ValueError (operands could not be broadcast together).
\<close>

definition broadcast :: "(real \<Rightarrow> real \<Rightarrow> 'a) \<Rightarrow> real list \<Rightarrow> real list \<Rightarrow> exn + 'a list" where
  "broadcast f xs ys =
     (if length xs = length ys then Inr (map2 f xs ys)
      else if length ys = 1 then Inr (map (\<lambda>x. f x (hd ys)) xs)
      else if length xs = 1 then Inr (map (\<lambda>y. f (hd xs) y) ys)
      else Inl ValueError)"

text \<open>
  The in-place \<^verbatim>\<open>xs += ys\<close> on arrays: the result keeps the shape of \<^verbatim>\<open>xs\<close>, so only
  \<^verbatim>\<open>ys\<close> may be broadcast.
\<close>

definition iadd :: "real list \<Rightarrow> real list \<Rightarrow> exn + real list" where
  "iadd xs ys =
     (if length xs = length ys then Inr (map2 (+) xs ys)
      else if length ys = 1 then Inr (map (\<lambda>x. x + hd ys) xs)
      else Inl ValueError)"

text \<open>\<^verbatim>\<open>scalar + array\<close> and \<^verbatim>\<open>array * scalar\<close>.\<close>

definition scalar_plus_array :: "pyfloat \<Rightarrow> real list \<Rightarrow> ndvalue" where
  "scalar_plus_array c xs = Array (map (\<lambda>x. fadd c (Num x)) xs)"

definition array_times_scalar :: "real list \<Rightarrow> real \<Rightarrow> real list" where
  "array_times_scalar xs c = map (\<lambda>x. x * c) xs"

text \<open>
  \<^verbatim>\<open>np.random.randn(n)\<close>: an array of \<^verbatim>\<open>n\<close> draws. The generator is an argument of the
  model, the sequence of values it is going to draw.
\<close>

definition randn :: "(nat \<Rightarrow> real) \<Rightarrow> nat \<Rightarrow> real list" where
  "randn rng n = map rng [0..<n]"

section \<open>The objective function object\<close>

text \<open>
  The optimal solution position is one point or an array of points
  (\<^verbatim>\<open>isinstance(self.optimal_solution_position[0], Iterable)\<close> tells them apart).
\<close>

datatype optimum = Point "real list" | Points "real list list"

text \<open>
  A function object, as far as \<^verbatim>\<open>pickle\<close> tells function objects apart: one that a
  \<^verbatim>\<open>def\<close> at the top level of a module has made, and one made inside another
  function; each with its qualified name.
\<close>

datatype callable = Module_function string | Local_function string

text \<open>
  The attributes of an instance. \<^verbatim>\<open>ndim\<close>, \<^verbatim>\<open>search_space_bounds\<close> and
  \<^verbatim>\<open>optimal_solution_position\<close> are settings the subclass stores before
  \<^verbatim>\<open>__init__\<close> runs; \<^verbatim>\<open>search_space_bounds\<close> is an array of shape \<^verbatim>\<open>(k, 2)\<close>, as the
  slices \<^verbatim>\<open>[:, 0]\<close> and \<^verbatim>\<open>[:, 1]\<close> of \<^verbatim>\<open>check_constraints\<close> need, written as the list
  of its rows, or \<^verbatim>\<open>None\<close>. \<^verbatim>\<open>first_derivative\<close> and \<^verbatim>\<open>second_derivative\<close> hold
  the function objects that \<^verbatim>\<open>__init__\<close> obtains from autograd.
\<close>

record objective_function =
  ndim :: nat
  search_space_bounds :: "(real \<times> real) list option"
  optimal_solution_position :: "optimum option"
  parameters :: "string \<rightharpoonup> real"
  shift :: "real list"
  noise_mean :: real
  noise_variance :: real
  nb_calls :: nat
  first_derivative :: callable
  second_derivative :: callable

text \<open>
  The abstract method \<^verbatim>\<open>evaluate(self, position) -> float\<close>: the benchmark formula of
  the subclass. It refers to the instance through \<^verbatim>\<open>self.parameters['name']\<close>; its
  first argument says what such a reference gives, a number or an exception. The formula
  returns a float or raises.
\<close>

type_synonym formula = "(string \<Rightarrow> exn + real) \<Rightarrow> real list \<Rightarrow> exn + pyfloat"

text \<open>\<^verbatim>\<open>self.parameters[name]\<close> on the instance: the value, or KeyError.\<close>

definition getitem :: "(string \<rightharpoonup> real) \<Rightarrow> string \<Rightarrow> exn + real" where
  "getitem d name = (case d name of None \<Rightarrow> Inl KeyError | Some v \<Rightarrow> Inr v)"

text \<open>\<^verbatim>\<open>__call__\<close>: the serial evaluation, \<^verbatim>\<open>self.evaluate(position)\<close>.\<close>

definition call :: "formula \<Rightarrow> objective_function \<Rightarrow> real list \<Rightarrow> exn + pyfloat" where
  "call evaluate self position = evaluate (getitem (parameters self)) position"

text \<open>\<^verbatim>\<open>np.any(self.optimal_solution_position)\<close>: some coordinate is not zero.\<close>

definition np_any_optimum :: "optimum option \<Rightarrow> bool" where
  "np_any_optimum opt =
     (case opt of
        None \<Rightarrow> False
      | Some (Point xs) \<Rightarrow> list_ex truthy xs
      | Some (Points rows) \<Rightarrow> list_ex (list_ex truthy) rows)"

text \<open>
  \<^verbatim>\<open>grad(self.__evaluate)\<close> and \<^verbatim>\<open>hessian(self.__evaluate)\<close>. autograd is a library
  outside the repository. Both operators are made by its decorator \<^verbatim>\<open>unary_to_nary\<close>
  (\<^verbatim>\<open>autograd/wrap_util.py\<close>), whose inner function \<^verbatim>\<open>nary_operator\<close> defines, at
  every call, a function \<^verbatim>\<open>nary_f\<close> around the function it is given and returns it. What
  \<^verbatim>\<open>__init__\<close> stores is therefore a function made at that call, different for every
  instance, with the qualified name below, and no module has it at its top level.
\<close>

definition grad :: callable where
  "grad = Local_function ''unary_to_nary.<locals>.nary_operator.<locals>.nary_f''"

definition hessian :: callable where
  "hessian = Local_function ''unary_to_nary.<locals>.nary_operator.<locals>.nary_f''"

text \<open>
  \<^verbatim>\<open>__init__\<close>. Inside the branch \<^verbatim>\<open>np.any\<close> has already read the optimal
  position, so it is not \<^verbatim>\<open>None\<close> and, being non-zero somewhere, has a first row;
  \<^verbatim>\<open>len(None)\<close> for absent bounds is the TypeError.
\<close>

definition init :: "objective_function \<Rightarrow> exn + objective_function" where
  "init self =
     (let fresh = self\<lparr>shift := replicate (ndim self) 0, noise_mean := 0,
                        noise_variance := 0, nb_calls := 0,
                        first_derivative := grad, second_derivative := hessian\<rparr>
      in if np_any_optimum (optimal_solution_position self) then
           (let optimal_solution_dim =
                  (case optimal_solution_position self of
                     Some (Points rows) \<Rightarrow> length (hd rows)
                   | Some (Point xs) \<Rightarrow> length xs
                   | None \<Rightarrow> 0)
            in if optimal_solution_dim \<noteq> ndim self then Inl ValueError
               else (case search_space_bounds self of
                       None \<Rightarrow> Inl TypeError
                     | Some rows \<Rightarrow>
                         if length rows \<noteq> ndim self then Inl ValueError else Inr fresh))
         else Inr fresh)"

text \<open>
  \<^verbatim>\<open>__evaluate\<close>, under \<^verbatim>\<open>@count_calls\<close>: the counter goes up first, also when the
  body raises. The body is
  \<^verbatim>\<open>self.evaluate(position - self.shift) + self.noise_mean
      + np.random.randn(position.shape[0]) * self.noise_variance\<close>,
  a float plus an array of \<^verbatim>\<open>position.shape[0]\<close> entries. No exception is handled here.
\<close>

definition private_evaluate ::
  "formula \<Rightarrow> objective_function \<Rightarrow> (nat \<Rightarrow> real) \<Rightarrow> real list
     \<Rightarrow> (exn + ndvalue) \<times> objective_function" where
  "private_evaluate evaluate self rng position =
     (let self' = self\<lparr>nb_calls := nb_calls self + 1\<rparr>
      in ((case broadcast (-) position (shift self') of
             Inl e \<Rightarrow> Inl e
           | Inr shifted \<Rightarrow>
               (case evaluate (getitem (parameters self')) shifted of
                  Inl e \<Rightarrow> Inl e
                | Inr v \<Rightarrow>
                    Inr (scalar_plus_array (fadd v (Num (noise_mean self')))
                           (array_times_scalar (randn rng (length position))
                              (noise_variance self'))))),
          self'))"

text \<open>
  \<^verbatim>\<open>apply_shift\<close>: the optimal position, when there is one, is moved in place by
  \<^verbatim>\<open>+= shift\<close> (every row of an array of points); then the shift is stored.
\<close>

fun iadd_rows :: "real list list \<Rightarrow> real list \<Rightarrow> exn + real list list" where
  "iadd_rows [] s = Inr []"
| "iadd_rows (r # rs) s =
     (case iadd r s of
        Inl e \<Rightarrow> Inl e
      | Inr r' \<Rightarrow> (case iadd_rows rs s of Inl e \<Rightarrow> Inl e | Inr rs' \<Rightarrow> Inr (r' # rs')))"

definition apply_shift :: "objective_function \<Rightarrow> real list \<Rightarrow> exn + objective_function" where
  "apply_shift self s =
     (case optimal_solution_position self of
        None \<Rightarrow> Inr (self\<lparr>shift := s\<rparr>)
      | Some (Point xs) \<Rightarrow>
          (case iadd xs s of
             Inl e \<Rightarrow> Inl e
           | Inr xs' \<Rightarrow> Inr (self\<lparr>optimal_solution_position := Some (Point xs'), shift := s\<rparr>))
      | Some (Points rows) \<Rightarrow>
          (case iadd_rows rows s of
             Inl e \<Rightarrow> Inl e
           | Inr rows' \<Rightarrow>
               Inr (self\<lparr>optimal_solution_position := Some (Points rows'), shift := s\<rparr>)))"

text \<open>\<^verbatim>\<open>apply_noise\<close>.\<close>

definition apply_noise :: "objective_function \<Rightarrow> real \<Rightarrow> real \<Rightarrow> objective_function" where
  "apply_noise self mean variance = self\<lparr>noise_mean := mean, noise_variance := variance\<rparr>"

section \<open>Bounds check\<close>

text \<open>
  The truth value Python asks of \<^verbatim>\<open>self.search_space_bounds\<close> in
  \<^verbatim>\<open>not self.search_space_bounds\<close>. \<^verbatim>\<open>None\<close> is false. An array of shape
  \<^verbatim>\<open>(k, 2)\<close> holds \<^verbatim>\<open>2 * k\<close> elements: without rows it is empty and false, with rows it
  has more than one element and NumPy raises ValueError (the truth value of an array with
  more than one element is ambiguous).
\<close>

definition bounds_truth :: "(real \<times> real) list option \<Rightarrow> exn + bool" where
  "bounds_truth b =
     (case b of
        None \<Rightarrow> Inr False
      | Some rows \<Rightarrow> if rows = [] then Inr False else Inl ValueError)"

text \<open>
  The returned expression
  \<^verbatim>\<open>np.any((position < bounds[:, 0]) | (position > bounds[:, 1]))\<close>.
\<close>

definition outside_any :: "real list \<Rightarrow> (real \<times> real) list \<Rightarrow> exn + bool" where
  "outside_any position rows =
     (case broadcast (<) position (map fst rows) of
        Inl e \<Rightarrow> Inl e
      | Inr too_low \<Rightarrow>
          (case broadcast (>) position (map snd rows) of
             Inl e \<Rightarrow> Inl e
           | Inr too_high \<Rightarrow> Inr (list_ex (\<lambda>(l, h). l \<or> h) (zip too_low too_high))))"

definition check_constraints :: "objective_function \<Rightarrow> real list \<Rightarrow> exn + bool" where
  "check_constraints self position =
     (case bounds_truth (search_space_bounds self) of
        Inl e \<Rightarrow> Inl e
      | Inr t \<Rightarrow>
          if \<not> t then Inl ValueError
          else (case search_space_bounds self of
                  None \<Rightarrow> Inl TypeError
                | Some rows \<Rightarrow> outside_any position rows))"

section \<open>Saving and loading\<close>

text \<open>
  \<^verbatim>\<open>save\<close> is \<^verbatim>\<open>pickle.dump(self, file)\<close> on a file opened with \<^verbatim>\<open>"wb"\<close>, \<^verbatim>\<open>load\<close>
  is \<^verbatim>\<open>pickle.load\<close>. By the documentation of \<^verbatim>\<open>pickle\<close>, an instance is pickled
  through its attributes; numbers, arrays and dictionaries of numbers come back equal; a
  function is pickled by its qualified name, which only a function defined at the top
  level of a module has, and pickling any other function raises (AttributeError: Can't
  pickle local object; PicklingError in later versions of Python). Opening with
  \<^verbatim>\<open>"wb"\<close> has emptied the file by then, and \<^verbatim>\<open>pickle.load\<close> of an empty file raises
  EOFError.
\<close>

datatype file_content = Empty | Pickled objective_function

type_synonym pickle_files = "string \<rightharpoonup> file_content"

definition picklable :: "callable \<Rightarrow> bool" where
  "picklable f = (case f of Module_function name \<Rightarrow> True | Local_function name \<Rightarrow> False)"

definition pickle_dump :: "objective_function \<Rightarrow> exn + file_content" where
  "pickle_dump obj =
     (if picklable (first_derivative obj) \<and> picklable (second_derivative obj)
      then Inr (Pickled obj) else Inl AttributeError)"

definition save :: "objective_function \<Rightarrow> string \<Rightarrow> pickle_files \<Rightarrow> (exn + unit) \<times> pickle_files" where
  "save self path fs =
     (case pickle_dump self of
        Inl e \<Rightarrow> (Inl e, fs(path \<mapsto> Empty))
      | Inr data \<Rightarrow> (Inr (), fs(path \<mapsto> data)))"

definition load :: "string \<Rightarrow> pickle_files \<Rightarrow> exn + objective_function" where
  "load path fs =
     (case fs path of
        None \<Rightarrow> Inl OSError
      | Some Empty \<Rightarrow> Inl EOFError
      | Some (Pickled obj) \<Rightarrow> Inr obj)"

section \<open>Decoupling the evaluate method\<close>

text \<open>
  \<^verbatim>\<open>parallel_evaluate\<close> hands the evaluation to worker processes as Python source: it
  takes the text of \<^verbatim>\<open>self.evaluate\<close>, rewrites it and writes it to the file named by
  the module constant \<^verbatim>\<open>DECOUPLED_FUNCTION_PATH\<close>, from where it is imported as the
  top-level function \<^verbatim>\<open>decoupled_evaluate\<close>.
\<close>

definition DECOUPLED_FUNCTION_PATH :: string where
  "DECOUPLED_FUNCTION_PATH = ''./src/objective_functions/tmp/decoupled_evaluate.py''"

text \<open>
  What the rewriting reads in the text of the method: whether it holds a \<^verbatim>\<open>return\<close>
  statement, and the names in its references \<^verbatim>\<open>self.parameters['name']\<close>. The model
  supposes that the method refers to the instance in this way only, as the rewriting
  does, with single quotes and no blank inside them, and that it uses no module beyond
  those that \<^verbatim>\<open>objective_function.py\<close> imports (the only import lines the staged
  file gets).
\<close>

record method_text =
  has_return :: bool
  references :: "string list"

text \<open>
  The rewritten source, by what it computes: the formula with literals written in for the
  references that were replaced (\<^verbatim>\<open>code_parameters\<close>: the name replaced and the number
  written), the statement \<^verbatim>\<open>position += np.array(<shift>)\<close> after the \<^verbatim>\<open>def\<close> line when
  one was inserted, and the summands \<^verbatim>\<open>+ <mean> + np.random.randn() * <variance>\<close> at
  the end of the \<^verbatim>\<open>return\<close> line when they were appended.
\<close>

record decoupled_code =
  code_has_return :: bool
  code_parameters :: "string \<rightharpoonup> real"
  code_shift :: "real list option"
  code_noise :: "(real \<times> real) option"

text \<open>The files under the staging path: a path has a content or does not exist.\<close>

type_synonym filesystem = "string \<rightharpoonup> decoupled_code"

text \<open>
  What the surroundings decide in one call: \<^verbatim>\<open>cleartext\<close> is the outcome of
  \<^verbatim>\<open>inspect.getsource\<close> and of the textual clean-up before
  \<^verbatim>\<open>__remove_self_references\<close> (an exception or the text); \<^verbatim>\<open>open_error\<close> is the
  exception of opening the staging file for writing, if any; \<^verbatim>\<open>import_result\<close> is the
  outcome of the statement
  \<^verbatim>\<open>from MDAF_benchmarks.tmp.decoupled_evaluate import evaluate\<close>, an exception or the
  function of that module, which is the function the tasks run; \<^verbatim>\<open>bytecode_file\<close> is
  the path of the byte-code file that an import from source writes beside the module, if
  it writes one. Which file the module name stands for is decided by the interpreter's
  search path and its module cache, not by \<^verbatim>\<open>DECOUPLED_FUNCTION_PATH\<close>, and a text
  that is not valid Python makes the import raise: that the import yields the file just
  written is said where it is supposed.
\<close>

record environment =
  cleartext :: "exn + method_text"
  open_error :: "exn option"
  import_result :: "exn + decoupled_code"
  bytecode_file :: "string option"

text \<open>
  \<^verbatim>\<open>__remove_self_references\<close>: the pattern
  \<^verbatim>\<open>self.parameters\[\s*'\s*.\s*'\s*\]\<close> finds the references whose name is one
  character long, and each is replaced by \<^verbatim>\<open>str(self.parameters[name])\<close>, a KeyError
  when the instance has no such parameter. A reference with a longer name is not found and
  stays in the text. The result is the table of the names replaced.
\<close>

definition private_remove_self_references ::
  "objective_function \<Rightarrow> method_text \<Rightarrow> exn + (string \<rightharpoonup> real)" where
  "private_remove_self_references self text =
     (if list_ex (\<lambda>name. length name = 1 \<and> parameters self name = None) (references text)
      then Inl KeyError
      else Inr (\<lambda>name. if length name = 1 \<and> name \<in> set (references text)
                        then parameters self name else None))"

text \<open>
  \<^verbatim>\<open>__decouple_shift_noise\<close>: with \<^verbatim>\<open>any(self.shift)\<close> the line
  \<^verbatim>\<open>position += np.array(shift)\<close> is inserted; with
  \<^verbatim>\<open>self.noise_mean or self.noise_variance\<close> the noise summands are appended to the
  \<^verbatim>\<open>return\<close> line, and a text without one is the ValueError. The text of a method
  begins with its \<^verbatim>\<open>def\<close> line, which the first rewrite always finds. The shift is
  written as \<^verbatim>\<open>str(self.shift)\<close> with every blank turned into a comma: \<^verbatim>\<open>[1. 1.]\<close>
  becomes \<^verbatim>\<open>[1.,1.]\<close>, while a shift that NumPy prints with padding, as
  \<^verbatim>\<open>[ 1. -1.]\<close>, becomes a text that is not valid Python, and the import of the file
  raises.
\<close>

definition private_decouple_shift_noise ::
  "objective_function \<Rightarrow> decoupled_code \<Rightarrow> exn + decoupled_code" where
  "private_decouple_shift_noise self code =
     (let code1 = (if list_ex truthy (shift self)
                   then code\<lparr>code_shift := Some (shift self)\<rparr> else code)
      in if truthy (noise_mean self) \<or> truthy (noise_variance self) then
           (if \<not> code_has_return code1 then Inl ValueError
            else Inr (code1\<lparr>code_noise := Some (noise_mean self, noise_variance self)\<rparr>))
         else Inr code1)"

text \<open>
  \<^verbatim>\<open>__decouple_evaluate\<close>: the text is obtained and cleaned, the references are
  replaced, shift and noise are accounted for, and the result is written to
  \<^verbatim>\<open>DECOUPLED_FUNCTION_PATH\<close>.
\<close>

definition private_decouple_evaluate ::
  "environment \<Rightarrow> objective_function \<Rightarrow> filesystem \<Rightarrow> exn + filesystem" where
  "private_decouple_evaluate env self fs =
     (case cleartext env of
        Inl e \<Rightarrow> Inl e
      | Inr text \<Rightarrow>
          (case private_remove_self_references self text of
             Inl e \<Rightarrow> Inl e
           | Inr literals \<Rightarrow>
               (case private_decouple_shift_noise self
                       \<lparr>code_has_return = has_return text, code_parameters = literals,
                        code_shift = None, code_noise = None\<rparr> of
                  Inl e \<Rightarrow> Inl e
                | Inr code \<Rightarrow>
                    (case open_error env of
                       Some e \<Rightarrow> Inl e
                     | None \<Rightarrow> Inr (fs(DECOUPLED_FUNCTION_PATH \<mapsto> code))))))"

text \<open>\<^verbatim>\<open>__delete_decoupled_evaluate\<close>.\<close>

definition private_delete_decoupled_evaluate :: "filesystem \<Rightarrow> filesystem" where
  "private_delete_decoupled_evaluate fs =
     (if DECOUPLED_FUNCTION_PATH \<in> dom fs then fs(DECOUPLED_FUNCTION_PATH := None) else fs)"

text \<open>
  A reference to a parameter in the staged module: the literal where the reference was
  replaced; where it was not, the text still says \<^verbatim>\<open>self.parameters[...]\<close>, and the
  module has no \<^verbatim>\<open>self\<close>: NameError.
\<close>

definition literal :: "(string \<rightharpoonup> real) \<Rightarrow> string \<Rightarrow> exn + real" where
  "literal literals name = (case literals name of None \<Rightarrow> Inl NameError | Some v \<Rightarrow> Inr v)"

text \<open>
  The function a worker runs: the staged code applied to one position. \<^verbatim>\<open>z\<close> is the
  draw of \<^verbatim>\<open>np.random.randn()\<close> in that task.
\<close>

definition decoupled_evaluate ::
  "formula \<Rightarrow> decoupled_code \<Rightarrow> real \<Rightarrow> real list \<Rightarrow> exn + pyfloat" where
  "decoupled_evaluate evaluate code z position =
     (case (case code_shift code of None \<Rightarrow> Inr position | Some s \<Rightarrow> iadd position s) of
        Inl e \<Rightarrow> Inl e
      | Inr moved \<Rightarrow>
          (case evaluate (literal (code_parameters code)) moved of
             Inl e \<Rightarrow> Inl e
           | Inr v \<Rightarrow>
               Inr (case code_noise code of
                      None \<Rightarrow> v
                    | Some (mean, variance) \<Rightarrow> fadd (fadd v (Num mean)) (Num (z * variance)))))"

section \<open>Parallel evaluation\<close>

text \<open>
  The first \<^verbatim>\<open>try\<close> block of \<^verbatim>\<open>parallel_evaluate\<close>: decouple, then import when the
  file exists. An exception of the import that \<^verbatim>\<open>except Exception\<close> catches is raised
  again as ImportError; an import from source leaves its byte-code file. The result is
  the imported function (none when the file did not exist, so the name
  \<^verbatim>\<open>decoupled_evaluate\<close> stays unbound) and the files.
\<close>

definition stage ::
  "environment \<Rightarrow> objective_function \<Rightarrow> filesystem
     \<Rightarrow> (exn + decoupled_code option) \<times> filesystem" where
  "stage env self fs =
     (case private_decouple_evaluate env self fs of
        Inl e \<Rightarrow> (Inl e, fs)
      | Inr fs' \<Rightarrow>
          (case fs' DECOUPLED_FUNCTION_PATH of
             None \<Rightarrow> (Inr None, fs')
           | Some written \<Rightarrow>
               (case import_result env of
                  Inl e \<Rightarrow> (Inl (if is_Exception e then ImportError else e), fs')
                | Inr code \<Rightarrow>
                    (Inr (Some code),
                     (case bytecode_file env of
                        None \<Rightarrow> fs'
                      | Some pyc \<Rightarrow> fs'(pyc \<mapsto> code))))))"

text \<open>
  \<^verbatim>\<open>ProcessPoolExecutor(max_workers=max_workers)\<close>: the constructor of the standard
  library raises ValueError for a \<^verbatim>\<open>max_workers\<close> that is given and not positive.
\<close>

definition ProcessPoolExecutor :: "int option \<Rightarrow> exn + unit" where
  "ProcessPoolExecutor max_workers =
     (case max_workers of
        None \<Rightarrow> Inr ()
      | Some w \<Rightarrow> if w \<le> 0 then Inl ValueError else Inr ())"

text \<open>
  The collecting loop over \<^verbatim>\<open>as_completed(future_to_index)\<close>. \<^verbatim>\<open>futures ! index\<close> is
  the outcome of the task submitted for \<^verbatim>\<open>positions[index]\<close>; the second argument is
  the order in which the tasks complete, by index (an index that names no task does not
  occur, and is passed over). \<^verbatim>\<open>future.result()\<close> raises what the task raised: an
  instance of \<^verbatim>\<open>Exception\<close> is logged and the slot is left as it is, any other
  exception leaves the loop and the method. What a task returns is stored in its slot.
\<close>

fun collect :: "(exn + pyfloat) list \<Rightarrow> nat list \<Rightarrow> pyfloat list \<Rightarrow> exn + pyfloat list" where
  "collect futures [] results = Inr results"
| "collect futures (index # completed) results =
     (if index < length futures then
        (case futures ! index of
           Inl e \<Rightarrow> if is_Exception e then collect futures completed results else Inl e
         | Inr result \<Rightarrow> collect futures completed (results[index := result]))
      else collect futures completed results)"

text \<open>
  \<^verbatim>\<open>parallel_evaluate\<close>. \<^verbatim>\<open>zs i\<close> is the noise draw of task \<^verbatim>\<open>i\<close>, \<^verbatim>\<open>order\<close> the
  completion order of the tasks, a reordering of \<^verbatim>\<open>0, ..., len(positions) - 1\<close> that the
  scheduler chooses. The result is the raised exception or the results vector, and the
  files as the call leaves them. The file is deleted in the \<^verbatim>\<open>except Exception\<close>
  clause of the staging and after the \<^verbatim>\<open>with\<close> block, nowhere else.
\<close>

definition parallel_evaluate ::
  "formula \<Rightarrow> environment \<Rightarrow> objective_function \<Rightarrow> real list list \<Rightarrow> int option
     \<Rightarrow> (nat \<Rightarrow> real) \<Rightarrow> nat list \<Rightarrow> filesystem \<Rightarrow> (exn + pyfloat list) \<times> filesystem" where
  "parallel_evaluate evaluate env self positions max_workers zs order fs =
     (case stage env self fs of
        (Inl e, fs') \<Rightarrow>
          if is_Exception e
          then (Inl (Exception e), private_delete_decoupled_evaluate fs')
          else (Inl e, fs')
      | (Inr imported, fs') \<Rightarrow>
          (case ProcessPoolExecutor max_workers of
             Inl e \<Rightarrow> (Inl e, fs')
           | Inr executor \<Rightarrow>
               (case imported of
                  None \<Rightarrow>
                    if positions = []
                    then (Inr [], private_delete_decoupled_evaluate fs')
                    else (Inl NameError, fs')
                | Some code \<Rightarrow>
                    (let futures = map (\<lambda>(i, pos). decoupled_evaluate evaluate code (zs i) pos)
                                     (enumerate 0 positions);
                         results = replicate (length positions) NaN
                     in (case collect futures order results of
                           Inl e \<Rightarrow> (Inl e, fs')
                         | Inr collected \<Rightarrow>
                             (Inr collected, private_delete_decoupled_evaluate fs'))))))"

section \<open>Instances used in the examples\<close>

text \<open>
  Modelled from the spec: the sphere formula \<^verbatim>\<open>sum(x_i^2)\<close> of the concrete scenarios
  in section 8; the subclasses that define the benchmark formulas are not among the
  sources. It reads no parameter.
\<close>

definition sphere :: formula where
  "sphere params x = Inr (Num (sum_list (map (\<lambda>v. v ^ 2) x)))"

text \<open>
  A formula with a parameter whose name is longer than one character:
  \<^verbatim>\<open>return self.parameters['scale'] * np.sum(position)\<close>.
\<close>

definition scaled_sum :: formula where
  "scaled_sum params x =
     (case params ''scale'' of
        Inl e \<Rightarrow> Inl e
      | Inr scale \<Rightarrow> Inr (Num (scale * sum_list x)))"

text \<open>
  A formula, written with NumPy and built-ins only, that raises at some positions and
  returns \<^verbatim>\<open>nan\<close> at others:
  \<^verbatim>\<open>return np.sqrt(position[1]) + 1 / float(position[0])\<close>. A position too short is
  the IndexError, a first coordinate 0 the ZeroDivisionError, and \<^verbatim>\<open>np.sqrt\<close> of a
  negative second coordinate is \<^verbatim>\<open>nan\<close>.
\<close>

definition sqrt_plus_reciprocal :: formula where
  "sqrt_plus_reciprocal params x =
     (if length x < 2 then Inl IndexError
      else if x ! 0 = 0 then Inl ZeroDivisionError
      else Inr (if x ! 1 < 0 then NaN else Num (sqrt (x ! 1) + 1 / x ! 0)))"

text \<open>
  The instance of the scenarios, as \<^verbatim>\<open>__init__\<close> leaves it: \<^verbatim>\<open>ndim=2\<close>,
  \<^verbatim>\<open>bounds=[(-5,5),(-5,5)]\<close>, no shift, no noise; and the same with the parameter
  \<^verbatim>\<open>{'scale': 3.0}\<close>.
\<close>

definition sphere2 :: objective_function where
  "sphere2 = \<lparr>ndim = 2, search_space_bounds = Some [(-5, 5), (-5, 5)],
              optimal_solution_position = Some (Point [0, 0]), parameters = Map.empty,
              shift = [0, 0], noise_mean = 0, noise_variance = 0, nb_calls = 0,
              first_derivative = grad, second_derivative = hessian\<rparr>"

definition scaled2 :: objective_function where
  "scaled2 = sphere2\<lparr>parameters := [''scale'' \<mapsto> 3]\<rparr>"

text \<open>
  The code staged for an instance without shift, noise and replaced references, and for
  the same instance shifted by \<^verbatim>\<open>[1, 1]\<close>.
\<close>

definition plain_code :: decoupled_code where
  "plain_code = \<lparr>code_has_return = True, code_parameters = Map.empty, code_shift = None,
                 code_noise = None\<rparr>"

definition shifted_code :: decoupled_code where
  "shifted_code = \<lparr>code_has_return = True, code_parameters = Map.empty,
                   code_shift = Some [1, 1], code_noise = None\<rparr>"

text \<open>
  Surroundings in which every step of the staging succeeds and the import yields the
  given code: for a method without references, and for \<^verbatim>\<open>scaled_sum\<close>.
\<close>

definition working :: "decoupled_code \<Rightarrow> environment" where
  "working code = \<lparr>cleartext = Inr \<lparr>has_return = True, references = []\<rparr>,
                   open_error = None, import_result = Inr code, bytecode_file = None\<rparr>"

definition working_scaled :: "decoupled_code \<Rightarrow> environment" where
  "working_scaled code =
     \<lparr>cleartext = Inr \<lparr>has_return = True, references = [''scale'']\<rparr>,
      open_error = None, import_result = Inr code,
      bytecode_file = Some ''./src/MDAF_benchmarks/tmp/__pycache__/decoupled_evaluate.pyc''\<rparr>"

section \<open>Facts about the example instance\<close>

lemma init_sphere2: "init sphere2 = Inr sphere2"
  by (simp add: init_def sphere2_def np_any_optimum_def truthy_def numeral_2_eq_2)

lemma sphere2_plain:
  "\<not> list_ex truthy (shift sphere2)" "noise_mean sphere2 = 0" "noise_variance sphere2 = 0"
  "parameters sphere2 = Map.empty"
  by (simp_all add: sphere2_def truthy_def)

lemma scaled2_plain:
  "\<not> list_ex truthy (shift scaled2)" "noise_mean scaled2 = 0" "noise_variance scaled2 = 0"
  "parameters scaled2 = [''scale'' \<mapsto> 3]"
  by (simp_all add: scaled2_def sphere2_def truthy_def)

lemma fadd_zero [simp]: "fadd v (Num 0) = v"
  by (cases v) simp_all

section \<open>The collecting loop\<close>

lemma collect_no_tasks: "collect [] order results = Inr results"
  by (induction order) simp_all

text \<open>
  When no task raises anything but instances of \<^verbatim>\<open>Exception\<close>, the loop ends with a
  vector: a slot holds what its task returned once the task has completed with a value,
  and what it held before otherwise. The order of completion plays no part.
\<close>

lemma collect_nth:
  assumes "\<forall>i<length futures. \<forall>e. futures ! i = Inl e \<longrightarrow> is_Exception e"
  shows "\<exists>collected. collect futures order results = Inr collected
          \<and> length collected = length results
          \<and> (\<forall>i<length results.
                collected ! i =
                  (if i \<in> set order \<and> i < length futures
                   then (case futures ! i of Inl e \<Rightarrow> results ! i | Inr v \<Rightarrow> v)
                   else results ! i))"
proof (induction order arbitrary: results)
  case Nil
  then show ?case by simp
next
  case (Cons index completed)
  show ?case
  proof (cases "index < length futures")
    case False
    with Cons [of results] show ?thesis by auto
  next
    case True
    show ?thesis
    proof (cases "futures ! index")
      case (Inl e)
      with True assms have "is_Exception e" by blast
      with Inl True Cons [of results] show ?thesis by (auto split: sum.splits)
    next
      case (Inr v)
      obtain collected where c:
        "collect futures completed (results[index := v]) = Inr collected"
        "length collected = length results"
        "\<forall>i<length results.
           collected ! i =
             (if i \<in> set completed \<and> i < length futures
              then (case futures ! i of Inl e \<Rightarrow> results[index := v] ! i | Inr w \<Rightarrow> w)
              else results[index := v] ! i)"
        using Cons [of "results[index := v]"] by auto
      have "collected ! i =
              (if i \<in> set (index # completed) \<and> i < length futures
               then (case futures ! i of Inl e \<Rightarrow> results ! i | Inr w \<Rightarrow> w)
               else results ! i)" if "i < length results" for i
      proof (cases "i = index")
        case True
        with c(3) that Inr \<open>index < length futures\<close> show ?thesis by simp
      next
        case False
        with c(3) that show ?thesis by (simp split: sum.splits)
      qed
      with c(1,2) Inr True show ?thesis by simp
    qed
  qed
qed

lemma results_nth:
  assumes "\<forall>i<length positions. \<forall>e. f i (positions ! i) = Inl e \<longrightarrow> is_Exception e"
    and "set order = {..<length positions}"
  shows "\<exists>collected.
           collect (map (\<lambda>(i, pos). f i pos) (enumerate 0 positions))
             order (replicate (length positions) NaN) = Inr collected
         \<and> length collected = length positions
         \<and> (\<forall>i<length positions.
               collected ! i = (case f i (positions ! i) of Inl e \<Rightarrow> NaN | Inr v \<Rightarrow> v))"
proof -
  let ?futures = "map (\<lambda>(i, pos). f i pos) (enumerate 0 positions)"
  have nth: "?futures ! i = f i (positions ! i)" if "i < length positions" for i
    using that by (simp add: nth_enumerate_eq)
  have "\<forall>i<length ?futures. \<forall>e. ?futures ! i = Inl e \<longrightarrow> is_Exception e"
    using assms(1) nth by simp
  from collect_nth [OF this, of order "replicate (length positions) NaN"]
  obtain collected where c:
    "collect ?futures order (replicate (length positions) NaN) = Inr collected"
    "length collected = length positions"
    "\<forall>i<length positions.
       collected ! i =
         (if i \<in> set order \<and> i < length ?futures
          then (case ?futures ! i of Inl e \<Rightarrow> replicate (length positions) NaN ! i | Inr v \<Rightarrow> v)
          else replicate (length positions) NaN ! i)"
    by auto
  have "collected ! i = (case f i (positions ! i) of Inl e \<Rightarrow> NaN | Inr v \<Rightarrow> v)"
    if "i < length positions" for i
    using c(3) that assms(2) nth [OF that] by (simp split: sum.splits)
  with c(1,2) show ?thesis by blast
qed

section \<open>Staging and dispatch\<close>

lemma stage_imported:
  assumes "private_decouple_evaluate env self fs = Inr fs'"
    and "fs' DECOUPLED_FUNCTION_PATH = Some written" and "import_result env = Inr code"
  shows "fst (stage env self fs) = Inr (Some code)"
  using assms by (simp add: stage_def)

lemma parallel_evaluate_staged:
  assumes "fst (stage env self fs) = Inr (Some code)"
    and "ProcessPoolExecutor max_workers = Inr ()"
  shows "fst (parallel_evaluate evaluate env self positions max_workers zs order fs) =
           collect (map (\<lambda>(i, pos). decoupled_evaluate evaluate code (zs i) pos)
                      (enumerate 0 positions))
             order (replicate (length positions) NaN)"
  using assms
  by (cases "stage env self fs") (simp add: parallel_evaluate_def split: sum.splits)

lemma decouple_working:
  assumes "\<not> list_ex truthy (shift self)" and "noise_mean self = 0" and "noise_variance self = 0"
  shows "private_decouple_evaluate (working code) self fs
           = Inr (fs(DECOUPLED_FUNCTION_PATH \<mapsto> plain_code))"
  using assms
  by (simp add: private_decouple_evaluate_def private_remove_self_references_def
      private_decouple_shift_noise_def working_def plain_code_def truthy_def)

lemma stage_working:
  assumes "\<not> list_ex truthy (shift self)" and "noise_mean self = 0" and "noise_variance self = 0"
  shows "stage (working code) self fs
           = (Inr (Some code), fs(DECOUPLED_FUNCTION_PATH \<mapsto> plain_code))"
  using decouple_working [OF assms, of code fs]
  by (simp add: stage_def) (simp add: working_def)

text \<open>
  What the rewriting does to the references: one with a name of one character reads in the
  worker what it reads on the instance; any other raises NameError in the worker.
\<close>

lemma replaced_reference:
  assumes "private_remove_self_references self text = Inr literals"
    and "length name = 1" and "name \<in> set (references text)"
  shows "literal literals name = getitem (parameters self) name"
  using assms
  by (auto simp: private_remove_self_references_def literal_def getitem_def list_ex_iff
      split: if_splits option.splits)

lemma reference_left_in_place:
  assumes "private_remove_self_references self text = Inr literals" and "length name \<noteq> 1"
  shows "literal literals name = Inl NameError"
  using assms
  by (auto simp: private_remove_self_references_def literal_def split: if_splits)

text \<open>
  C1. \<^verbatim>\<open>parallel_evaluate\<close> does not return the serial values for a formula that reads a
  parameter whose name is longer than one character. The instance with
  \<^verbatim>\<open>parameters = {'scale': 3.0}\<close> and the formula
  \<^verbatim>\<open>self.parameters['scale'] * np.sum(position)\<close>, without shift and noise, at
  \<^verbatim>\<open>[1, 2]\<close>: the serial evaluation gives 9; the reference is not replaced, the staged
  code is the text as it was, the worker raises NameError, and \<^verbatim>\<open>parallel_evaluate\<close>,
  with staging and import at their best, returns \<^verbatim>\<open>[nan]\<close>.
\<close>

theorem parallel_evaluate_loses_long_parameter:
  "call scaled_sum scaled2 [1, 2] = Inr (Num 9)
   \<and> \<not> list_ex truthy (shift scaled2) \<and> noise_mean scaled2 = 0 \<and> noise_variance scaled2 = 0
   \<and> private_decouple_evaluate (working_scaled plain_code) scaled2 Map.empty
       = Inr [DECOUPLED_FUNCTION_PATH \<mapsto> plain_code]
   \<and> import_result (working_scaled plain_code) = Inr plain_code
   \<and> decoupled_evaluate scaled_sum plain_code z [1, 2] = Inl NameError
   \<and> fst (parallel_evaluate scaled_sum (working_scaled plain_code) scaled2 [[1, 2]] None zs
            [0] Map.empty) = Inr [NaN]"
proof -
  have c: "call scaled_sum scaled2 [1, 2] = Inr (Num 9)"
    by (simp add: call_def scaled_sum_def scaled2_def getitem_def)
  have r: "private_remove_self_references scaled2
             \<lparr>has_return = True, references = [''scale'']\<rparr> = Inr Map.empty"
    by (auto simp: private_remove_self_references_def fun_eq_iff)
  have d: "private_decouple_evaluate (working_scaled plain_code) scaled2 Map.empty
             = Inr [DECOUPLED_FUNCTION_PATH \<mapsto> plain_code]"
    by (simp add: private_decouple_evaluate_def r private_decouple_shift_noise_def
        working_scaled_def plain_code_def scaled2_plain truthy_def)
  have m: "import_result (working_scaled plain_code) = Inr plain_code"
    by (simp add: working_scaled_def)
  have s: "fst (stage (working_scaled plain_code) scaled2 Map.empty) = Inr (Some plain_code)"
    using stage_imported [OF d _ m] by simp
  have w: "decoupled_evaluate scaled_sum plain_code d [1, 2] = Inl NameError" for d
    by (simp add: decoupled_evaluate_def plain_code_def scaled_sum_def literal_def)
  have p: "fst (parallel_evaluate scaled_sum (working_scaled plain_code) scaled2 [[1, 2]] None
                  zs [0] Map.empty) = Inr [NaN]"
    using parallel_evaluate_staged [OF s, of None scaled_sum "[[1, 2]]" zs "[0]"] w
    by (simp add: ProcessPoolExecutor_def)
  from c d m w p scaled2_plain(1-3) show ?thesis by blast
qed

text \<open>
  What remains true: for a formula that reads no parameter, such as the sphere, and whose
  exceptions are instances of \<^verbatim>\<open>Exception\<close>, the results are the serial values in the
  order of the positions, when the import yields the file just written.
\<close>

lemma parallel_matches_serial_without_references:
  assumes "private_decouple_evaluate env self fs = Inr fs'"
    and "fs' DECOUPLED_FUNCTION_PATH = Some code" and "import_result env = Inr code"
    and "ProcessPoolExecutor max_workers = Inr ()"
    and "\<not> list_ex truthy (shift self)" and "noise_mean self = 0" and "noise_variance self = 0"
    and "\<And>r r'. evaluate r = evaluate r'"
    and "\<forall>i<length positions. \<forall>e. call evaluate self (positions ! i) = Inl e
           \<longrightarrow> is_Exception e"
    and "set order = {..<length positions}"
  shows "\<exists>results.
           fst (parallel_evaluate evaluate env self positions max_workers zs order fs)
             = Inr results
         \<and> length results = length positions
         \<and> (\<forall>i<length positions.
               results ! i =
                 (case call evaluate self (positions ! i) of
                    Inl e \<Rightarrow> NaN
                  | Inr v \<Rightarrow> v))"
proof -
  have shape: "code_shift code = None \<and> code_noise code = None"
    using assms(1,2,5-7)
    by (auto simp: private_decouple_evaluate_def private_decouple_shift_noise_def truthy_def
        split: sum.splits option.splits)
  have worker: "decoupled_evaluate evaluate code z position = call evaluate self position"
    for z position
    using shape assms(8) [of "literal (code_parameters code)" "getitem (parameters self)"]
    by (simp add: decoupled_evaluate_def call_def split: sum.splits)
  have staged: "fst (stage env self fs) = Inr (Some code)"
    using assms(1-3) by (rule stage_imported)
  have run: "fst (parallel_evaluate evaluate env self positions max_workers zs order fs)
               = collect (map (\<lambda>(i, pos). decoupled_evaluate evaluate code (zs i) pos)
                            (enumerate 0 positions))
                   order (replicate (length positions) NaN)"
    using staged assms(4) by (rule parallel_evaluate_staged)
  have same: "(\<lambda>(i, pos). decoupled_evaluate evaluate code (zs i) pos)
                = (\<lambda>(i, pos). call evaluate self pos)"
    by (simp add: worker)
  from results_nth [of positions "\<lambda>i pos. call evaluate self pos" order, OF assms(9,10)]
  show ?thesis
    unfolding run same by simp
qed

section \<open>Failure of single tasks\<close>

lemma filter_single:
  "k < length xs \<Longrightarrow> P (xs ! k) \<Longrightarrow> (\<forall>i<length xs. i \<noteq> k \<longrightarrow> \<not> P (xs ! i))
   \<Longrightarrow> length (filter P xs) = 1"
proof (induction xs arbitrary: k)
  case Nil
  then show ?case by simp
next
  case (Cons x xs)
  show ?case
  proof (cases k)
    case 0
    have "\<not> P (xs ! i)" if "i < length xs" for i
      using Cons.prems(3) that 0 by (auto dest: spec [where x = "Suc i"])
    then have "filter P xs = []"
      by (auto simp: filter_empty_conv in_set_conv_nth)
    with Cons.prems(2) 0 show ?thesis by simp
  next
    case (Suc j)
    have nx: "\<not> P x"
      using Cons.prems(3) Suc by (auto dest: spec [where x = 0])
    have rest: "\<forall>i<length xs. i \<noteq> j \<longrightarrow> \<not> P (xs ! i)"
      using Cons.prems(3) Suc by (auto dest: spec [where x = "Suc i" for i])
    have "length (filter P xs) = 1"
      using Cons.IH [of j] Cons.prems(1,2) Suc rest by simp
    with nx show ?thesis by simp
  qed
qed

text \<open>
  C2, as amended. When staging and the pool succeed and exactly the task of index
  \<^verbatim>\<open>k\<close> raises, an instance of \<^verbatim>\<open>Exception\<close>, \<^verbatim>\<open>parallel_evaluate\<close> returns (it
  does not raise) a vector with one entry per position: \<^verbatim>\<open>np.nan\<close> at \<^verbatim>\<open>k\<close>, and at
  every other index the float its task returned. Exactly one entry is \<^verbatim>\<open>np.nan\<close> when
  none of the other tasks returned \<^verbatim>\<open>nan\<close> itself. The order of completion is
  arbitrary.
\<close>

theorem parallel_evaluate_isolates_failure:
  assumes "fst (stage env self fs) = Inr (Some code)"
    and "ProcessPoolExecutor max_workers = Inr ()"
    and "set order = {..<length positions}"
    and "k < length positions"
    and "decoupled_evaluate evaluate code (zs k) (positions ! k) = Inl e"
    and "is_Exception e"
    and "\<forall>i<length positions. i \<noteq> k \<longrightarrow>
           decoupled_evaluate evaluate code (zs i) (positions ! i) = Inr (v i)"
  shows "\<exists>results.
           fst (parallel_evaluate evaluate env self positions max_workers zs order fs)
             = Inr results
         \<and> length results = length positions
         \<and> results ! k = NaN
         \<and> (\<forall>i<length positions. i \<noteq> k \<longrightarrow> results ! i = v i)
         \<and> ((\<forall>i<length positions. i \<noteq> k \<longrightarrow> v i \<noteq> NaN)
              \<longrightarrow> length (filter (\<lambda>c. c = NaN) results) = 1)"
proof -
  let ?task = "\<lambda>i pos. decoupled_evaluate evaluate code (zs i) pos"
  have run: "fst (parallel_evaluate evaluate env self positions max_workers zs order fs)
               = collect (map (\<lambda>(i, pos). ?task i pos) (enumerate 0 positions))
                   order (replicate (length positions) NaN)"
    using assms(1,2) by (rule parallel_evaluate_staged)
  have caught: "\<forall>i<length positions. \<forall>x. ?task i (positions ! i) = Inl x \<longrightarrow> is_Exception x"
  proof (intro allI impI)
    fix i x
    assume "i < length positions" and "?task i (positions ! i) = Inl x"
    with assms(5,6,7) show "is_Exception x"
      by (cases "i = k") auto
  qed
  obtain results where r:
    "collect (map (\<lambda>(i, pos). ?task i pos) (enumerate 0 positions))
       order (replicate (length positions) NaN) = Inr results"
    "length results = length positions"
    "\<forall>i<length positions.
       results ! i = (case ?task i (positions ! i) of Inl x \<Rightarrow> NaN | Inr w \<Rightarrow> w)"
    using results_nth [of positions ?task order, OF caught assms(3)] by blast
  have failed: "results ! k = NaN"
    using r(3) assms(4,5) by simp
  have others: "\<forall>i<length positions. i \<noteq> k \<longrightarrow> results ! i = v i"
    using r(3) assms(7) by simp
  have "length (filter (\<lambda>c. c = NaN) results) = 1"
    if "\<forall>i<length positions. i \<noteq> k \<longrightarrow> v i \<noteq> NaN"
  proof (rule filter_single [where k = k])
    show "k < length results" using assms(4) r(2) by simp
    show "results ! k = NaN" by (rule failed)
    show "\<forall>i<length results. i \<noteq> k \<longrightarrow> results ! i \<noteq> NaN"
      using others that r(2) by simp
  qed
  with run r(1,2) failed others show ?thesis by simp
qed

text \<open>
  Three positions under \<^verbatim>\<open>sqrt_plus_reciprocal\<close>, the second with a first coordinate 0,
  the tasks completing in the order 1, 2, 0.
\<close>

theorem parallel_evaluate_isolates_failure_witness:
  "fst (stage (working plain_code) sphere2 Map.empty) = Inr (Some plain_code)
   \<and> ProcessPoolExecutor (Some 2) = Inr ()
   \<and> set [1, 2, 0] = {..<length [[1, 4], [0, 1], [1, 9 :: real]]}
   \<and> (1 :: nat) < length [[1, 4], [0, 1], [1, 9 :: real]]
   \<and> decoupled_evaluate sqrt_plus_reciprocal plain_code 0 [0, 1] = Inl ZeroDivisionError
   \<and> is_Exception ZeroDivisionError
   \<and> decoupled_evaluate sqrt_plus_reciprocal plain_code 0 [1, 4] = Inr (Num 3)
   \<and> decoupled_evaluate sqrt_plus_reciprocal plain_code 0 [1, 9] = Inr (Num 4)
   \<and> (\<exists>results.
         fst (parallel_evaluate sqrt_plus_reciprocal (working plain_code) sphere2
                [[1, 4], [0, 1], [1, 9]] (Some 2) (\<lambda>i. 0) [1, 2, 0] Map.empty) = Inr results
       \<and> length results = 3
       \<and> results ! 0 = Num 3 \<and> results ! 1 = NaN \<and> results ! 2 = Num 4
       \<and> length (filter (\<lambda>c. c = NaN) results) = 1)"
proof -
  let ?positions = "[[1, 4], [0, 1], [1, 9 :: real]]"
  let ?v = "\<lambda>i::nat. if i = 0 then Num 3 else Num 4"
  have s: "fst (stage (working plain_code) sphere2 Map.empty) = Inr (Some plain_code)"
    by (simp add: stage_working sphere2_plain)
  have p: "ProcessPoolExecutor (Some 2) = Inr ()"
    by (simp add: ProcessPoolExecutor_def)
  have o: "set [1, 2, 0] = {..<length ?positions}"
    by auto
  have k: "(1 :: nat) < length ?positions"
    by simp
  have f: "decoupled_evaluate sqrt_plus_reciprocal plain_code 0 [0, 1] = Inl ZeroDivisionError"
    by (simp add: decoupled_evaluate_def plain_code_def sqrt_plus_reciprocal_def)
  have g: "decoupled_evaluate sqrt_plus_reciprocal plain_code 0 [1, 4] = Inr (Num 3)"
    "decoupled_evaluate sqrt_plus_reciprocal plain_code 0 [1, 9] = Inr (Num 4)"
    by (simp_all add: decoupled_evaluate_def plain_code_def sqrt_plus_reciprocal_def
        real_sqrt_eq_iff [of 9 3, symmetric] flip: real_sqrt_abs [of 3])
  have fk: "decoupled_evaluate sqrt_plus_reciprocal plain_code ((\<lambda>i. 0) 1) (?positions ! 1)
              = Inl ZeroDivisionError"
    using f by simp
  have x: "is_Exception ZeroDivisionError"
    by simp
  have ok: "\<forall>i<length ?positions. i \<noteq> 1 \<longrightarrow>
              decoupled_evaluate sqrt_plus_reciprocal plain_code ((\<lambda>i. 0) i) (?positions ! i)
                = Inr (?v i)"
    using g by (simp add: less_Suc_eq nth_Cons')
  obtain results where r:
    "fst (parallel_evaluate sqrt_plus_reciprocal (working plain_code) sphere2 ?positions
            (Some 2) (\<lambda>i. 0) [1, 2, 0] Map.empty) = Inr results"
    "length results = length ?positions"
    "results ! 1 = NaN"
    "\<forall>i<length ?positions. i \<noteq> 1 \<longrightarrow> results ! i = ?v i"
    "(\<forall>i<length ?positions. i \<noteq> 1 \<longrightarrow> ?v i \<noteq> NaN)
       \<longrightarrow> length (filter (\<lambda>c. c = NaN) results) = 1"
    using parallel_evaluate_isolates_failure [OF s p o k fk x ok] by blast
  have "results ! 0 = Num 3" "results ! 2 = Num 4"
    using r(4) by simp_all
  moreover have "length (filter (\<lambda>c. c = NaN) results) = 1"
    using r(5) by simp
  ultimately show ?thesis
    using s p o k f x g r(1,2,3) by simp
qed

text \<open>
  The claim as stated fails: with the same formula the task at \<^verbatim>\<open>[0, 1]\<close> raises and
  the task at \<^verbatim>\<open>[4, -1]\<close> returns \<^verbatim>\<open>nan\<close> without raising, so with exactly one task
  raising two of the three entries are \<^verbatim>\<open>nan\<close>, one of them not at the failing index.
\<close>

theorem returned_nan_fills_a_second_slot:
  "decoupled_evaluate sqrt_plus_reciprocal plain_code 0 [1, 4] = Inr (Num 3)
   \<and> decoupled_evaluate sqrt_plus_reciprocal plain_code 0 [0, 1] = Inl ZeroDivisionError
   \<and> decoupled_evaluate sqrt_plus_reciprocal plain_code 0 [4, -1] = Inr NaN
   \<and> fst (parallel_evaluate sqrt_plus_reciprocal (working plain_code) sphere2
            [[1, 4], [0, 1], [4, -1]] None (\<lambda>i. 0) [1, 2, 0] Map.empty)
       = Inr [Num 3, NaN, NaN]
   \<and> length (filter (\<lambda>c. c = NaN) [Num 3, NaN, NaN]) = 2"
proof -
  have s: "fst (stage (working plain_code) sphere2 Map.empty) = Inr (Some plain_code)"
    by (simp add: stage_working sphere2_plain)
  have t: "decoupled_evaluate sqrt_plus_reciprocal plain_code 0 [1, 4] = Inr (Num 3)"
    "decoupled_evaluate sqrt_plus_reciprocal plain_code 0 [0, 1] = Inl ZeroDivisionError"
    "decoupled_evaluate sqrt_plus_reciprocal plain_code 0 [4, -1] = Inr NaN"
    by (simp_all add: decoupled_evaluate_def plain_code_def sqrt_plus_reciprocal_def)
  have "fst (parallel_evaluate sqrt_plus_reciprocal (working plain_code) sphere2
               [[1, 4], [0, 1], [4, -1]] None (\<lambda>i. 0) [1, 2, 0] Map.empty)
          = Inr [Num 3, NaN, NaN]"
    using parallel_evaluate_staged
      [OF s, of None sqrt_plus_reciprocal "[[1, 4], [0, 1], [4, -1]]" "\<lambda>i. 0" "[1, 2, 0]"] t
    by (simp add: ProcessPoolExecutor_def)
  with t show ?thesis by simp
qed

section \<open>Shift and noise on the two paths\<close>

lemma apply_shift_fields:
  assumes "apply_shift self s = Inr self'"
  shows "shift self' = s" and "parameters self' = parameters self"
    and "noise_mean self' = noise_mean self" and "noise_variance self' = noise_variance self"
    and "ndim self' = ndim self" and "nb_calls self' = nb_calls self"
  using assms
  by (auto simp: apply_shift_def split: option.splits optimum.splits sum.splits)

lemma broadcast_same_length:
  "length xs = length ys \<Longrightarrow> broadcast f xs ys = Inr (map2 f xs ys)"
  by (simp add: broadcast_def)

lemma minus_zeros: "map2 (-) q (replicate (length q) (0 :: real)) = q"
  by (induction q) simp_all

text \<open>
  Without variance the draws do not show in the result of \<^verbatim>\<open>__evaluate\<close>: it is the
  array of \<^verbatim>\<open>position.shape[0]\<close> copies of formula plus mean.
\<close>

lemma private_evaluate_no_variance:
  assumes "noise_variance self = 0"
  shows "fst (private_evaluate evaluate self rng position) =
           (case broadcast (-) position (shift self) of
              Inl e \<Rightarrow> Inl e
            | Inr shifted \<Rightarrow>
                (case evaluate (getitem (parameters self)) shifted of
                   Inl e \<Rightarrow> Inl e
                 | Inr v \<Rightarrow>
                     Inr (Array (replicate (length position)
                                   (fadd v (Num (noise_mean self)))))))"
  using assms
  by (simp add: private_evaluate_def scalar_plus_array_def array_times_scalar_def randn_def
      map_replicate_const comp_def split: sum.splits)

text \<open>
  C6. On an instance as the constructor leaves it (zero shift of length \<^verbatim>\<open>ndim\<close>, no
  noise), for a position \<^verbatim>\<open>p\<close> and a shift \<^verbatim>\<open>s\<close> of length \<^verbatim>\<open>ndim\<close>: evaluating at
  \<^verbatim>\<open>p\<close> after \<^verbatim>\<open>apply_shift(s)\<close> gives what evaluating the unshifted instance gives at
  \<^verbatim>\<open>p - s\<close>, whatever the generator draws.
\<close>

theorem shift_translates_position:
  assumes "apply_shift self s = Inr shifted"
    and "shift self = replicate (ndim self) 0"
    and "noise_mean self = 0" and "noise_variance self = 0"
    and "length p = ndim self" and "length s = ndim self"
  shows "\<exists>q. broadcast (-) p s = Inr q
          \<and> fst (private_evaluate evaluate shifted rng p) =
              fst (private_evaluate evaluate self rng' q)"
proof -
  let ?q = "map2 (-) p s"
  have q: "broadcast (-) p s = Inr ?q"
    using assms(5,6) by (simp add: broadcast_same_length)
  have len: "length ?q = length p"
    using assms(5,6) by simp
  have unshifted: "broadcast (-) ?q (shift self) = Inr ?q"
    using assms(2,5,6) minus_zeros [of ?q] by (simp add: broadcast_same_length)
  have after: "fst (private_evaluate evaluate shifted rng p) =
      (case evaluate (getitem (parameters self)) ?q of
         Inl e \<Rightarrow> Inl e
       | Inr v \<Rightarrow> Inr (Array (replicate (length p) v)))"
    using apply_shift_fields [OF assms(1)] assms(3,4) q
    by (simp add: private_evaluate_no_variance split: sum.splits)
  have before: "fst (private_evaluate evaluate self rng' ?q) =
      (case evaluate (getitem (parameters self)) ?q of
         Inl e \<Rightarrow> Inl e
       | Inr v \<Rightarrow> Inr (Array (replicate (length ?q) v)))"
    using assms(3,4) unshifted by (simp add: private_evaluate_no_variance split: sum.splits)
  from q after before len show ?thesis by (simp split: sum.splits)
qed

text \<open>
  The scenario of the spec: the sphere shifted by \<^verbatim>\<open>[1,1]\<close>, evaluated at \<^verbatim>\<open>[1,1]\<close>,
  against the unshifted sphere at \<^verbatim>\<open>[0,0]\<close>.
\<close>

theorem shift_translates_position_witness:
  "apply_shift sphere2 [1, 1]
     = Inr (sphere2\<lparr>optimal_solution_position := Some (Point [1, 1]), shift := [1, 1]\<rparr>)
   \<and> shift sphere2 = replicate (ndim sphere2) 0
   \<and> noise_mean sphere2 = 0 \<and> noise_variance sphere2 = 0
   \<and> length [1, 1 :: real] = ndim sphere2
   \<and> broadcast (-) [1, 1] [1, 1] = Inr [0, 0]
   \<and> fst (private_evaluate sphere
            (sphere2\<lparr>optimal_solution_position := Some (Point [1, 1]), shift := [1, 1]\<rparr>)
            (\<lambda>i. 1) [1, 1])
       = fst (private_evaluate sphere sphere2 (\<lambda>i. 2) [0, 0])"
proof -
  let ?shifted = "sphere2\<lparr>optimal_solution_position := Some (Point [1, 1]), shift := [1, 1]\<rparr>"
  have a: "apply_shift sphere2 [1, 1] = Inr ?shifted"
    by (simp add: apply_shift_def sphere2_def iadd_def)
  have z: "shift sphere2 = replicate (ndim sphere2) 0"
    by (simp add: sphere2_def numeral_2_eq_2)
  have n: "noise_mean sphere2 = 0" "noise_variance sphere2 = 0"
    by (simp_all add: sphere2_def)
  have l: "length [1, 1 :: real] = ndim sphere2"
    by (simp add: sphere2_def)
  have b: "broadcast (-) [1, 1] [1, 1] = Inr [0, 0]"
    by (simp add: broadcast_def)
  from shift_translates_position [OF a z n l l, of sphere "\<lambda>i. 1" "\<lambda>i. 2"] b
  have "fst (private_evaluate sphere ?shifted (\<lambda>i. 1) [1, 1])
          = fst (private_evaluate sphere sphere2 (\<lambda>i. 2) [0, 0])"
    by simp
  with a z n l b show ?thesis by simp
qed

text \<open>
  C7. With mean \<^verbatim>\<open>m\<close> and variance 0 the values are exactly formula plus \<^verbatim>\<open>m\<close> and do not
  depend on the draws (lemma \<open>private_evaluate_no_variance\<close>), but what
  \<^verbatim>\<open>__evaluate\<close> returns is not the float its signature and docstring announce: the
  summand \<^verbatim>\<open>np.random.randn(position.shape[0]) * 0\<close> is an array, so the sum is an array
  with one entry per coordinate of the position. The sphere with mean 1/2 at
  \<^verbatim>\<open>[1, 1]\<close>: the formula gives 2, the call returns \<^verbatim>\<open>array([2.5, 2.5])\<close>.
\<close>

theorem private_evaluate_returns_array:
  "call sphere (apply_noise sphere2 (1 / 2) 0) [1, 1] = Inr (Num 2)
   \<and> fst (private_evaluate sphere (apply_noise sphere2 (1 / 2) 0) rng [1, 1])
       = Inr (Array [Num (5 / 2), Num (5 / 2)])
   \<and> fst (private_evaluate sphere (apply_noise sphere2 (1 / 2) 0) rng [1, 1])
       \<noteq> Inr (Scalar (Num (5 / 2)))"
  by (simp add: private_evaluate_no_variance apply_noise_def sphere2_def call_def sphere_def
      broadcast_def numeral_2_eq_2)

section \<open>Positions of the wrong length\<close>

lemma init_fields:
  assumes "init settings = Inr self"
  shows "shift self = replicate (ndim self) 0" and "noise_mean self = 0"
    and "noise_variance self = 0" and "parameters self = parameters settings"
    and "ndim self = ndim settings"
  using assms
  by (auto simp: init_def Let_def split: if_splits option.splits)

lemma broadcast_minus_zeros:
  assumes "length position \<noteq> n"
  shows "broadcast (-) position (replicate n (0 :: real)) =
           (if n = 1 then Inr position
            else if length position = 1 then Inr (replicate n (hd position))
            else Inl ValueError)"
  using assms by (auto simp: broadcast_def map_replicate_const intro: nth_equalityI)

text \<open>
  C8, as amended. \<^verbatim>\<open>__evaluate\<close> compares no length with \<^verbatim>\<open>ndim\<close>. On an instance as
  the constructor leaves it, a position whose length differs from \<^verbatim>\<open>ndim\<close> raises only
  where NumPy cannot broadcast \<^verbatim>\<open>position - self.shift\<close>, which is when neither length is
  1, and the exception is NumPy's ValueError, handed on by \<^verbatim>\<open>__evaluate\<close>; with
  \<^verbatim>\<open>ndim = 1\<close> the position is evaluated as it is, and a position of length 1 is
  evaluated as \<^verbatim>\<open>ndim\<close> copies of its coordinate.
\<close>

theorem private_evaluate_wrong_length:
  assumes "init settings = Inr self" and "length position \<noteq> ndim self"
  shows "fst (private_evaluate evaluate self rng position) =
           (if ndim self = 1 then
              (case evaluate (getitem (parameters self)) position of
                 Inl e \<Rightarrow> Inl e
               | Inr v \<Rightarrow> Inr (Array (replicate (length position) v)))
            else if length position = 1 then
              (case evaluate (getitem (parameters self)) (replicate (ndim self) (hd position)) of
                 Inl e \<Rightarrow> Inl e
               | Inr v \<Rightarrow> Inr (Array [v]))
            else Inl ValueError)"
proof -
  have v: "noise_variance self = 0" and m: "noise_mean self = 0"
    and s: "shift self = replicate (ndim self) 0"
    using init_fields [OF assms(1)] by simp_all
  show ?thesis
    using m s broadcast_minus_zeros [OF assms(2)]
    by (simp add: private_evaluate_no_variance [OF v] split: sum.splits)
qed

theorem private_evaluate_wrong_length_witness:
  "init sphere2 = Inr sphere2 \<and> length [1, 2, 3 :: real] \<noteq> ndim sphere2
   \<and> fst (private_evaluate sphere sphere2 (\<lambda>i. 0) [1, 2, 3]) = Inl ValueError"
  using private_evaluate_wrong_length [OF init_sphere2, of "[1, 2, 3]" sphere "\<lambda>i. 0"]
  by (simp add: init_sphere2) (simp add: sphere2_def)

text \<open>
  The claim as stated fails: the sphere of dimension 2 at the position \<^verbatim>\<open>[3]\<close> of
  length 1 does not fail, it is evaluated at \<^verbatim>\<open>[3, 3]\<close>.
\<close>

theorem short_position_is_evaluated:
  "init sphere2 = Inr sphere2 \<and> length [3 :: real] \<noteq> ndim sphere2
   \<and> fst (private_evaluate sphere sphere2 (\<lambda>i. 0) [3]) = Inr (Array [Num 18])"
proof -
  have "length [3 :: real] \<noteq> ndim sphere2"
    by (simp add: sphere2_def)
  moreover have "fst (private_evaluate sphere sphere2 (\<lambda>i. 0) [3]) = Inr (Array [Num 18])"
    by (simp add: private_evaluate_no_variance sphere2_def sphere_def broadcast_def)
  ultimately show ?thesis
    using init_sphere2 by simp
qed

section \<open>The worker-side function against the instance-side evaluation\<close>

text \<open>
  What \<^verbatim>\<open>__decouple_shift_noise\<close> makes of a shift: the worker evaluates the formula at
  \<^verbatim>\<open>position + shift\<close>.
\<close>

lemma decoupled_evaluate_shift:
  assumes "code_shift code = Some s" and "code_noise code = None" and "length s = length p"
  shows "decoupled_evaluate evaluate code z p =
           evaluate (literal (code_parameters code)) (map2 (+) p s)"
  using assms by (simp add: decoupled_evaluate_def iadd_def split: sum.splits)

text \<open>
  C3. The worker-side function does not compute what \<^verbatim>\<open>__evaluate\<close> computes when the
  shift is not zero: \<^verbatim>\<open>__evaluate\<close> calls the formula at \<^verbatim>\<open>position - self.shift\<close>, the
  line inserted by \<^verbatim>\<open>__decouple_shift_noise\<close> is \<^verbatim>\<open>position += np.array(shift)\<close>. The
  scenario of the spec, the sphere shifted by \<^verbatim>\<open>[1, 1]\<close> and evaluated at \<^verbatim>\<open>[1, 1]\<close>
  without noise: the instance gives 0 in every entry, the worker gives 8, and so does
  \<^verbatim>\<open>parallel_evaluate\<close>.
\<close>

theorem worker_adds_the_shift:
  "\<exists>shifted.
      apply_shift sphere2 [1, 1] = Inr shifted
    \<and> noise_mean shifted = 0 \<and> noise_variance shifted = 0
    \<and> fst (private_evaluate sphere shifted rng [1, 1]) = Inr (Array [Num 0, Num 0])
    \<and> private_decouple_evaluate (working shifted_code) shifted Map.empty
        = Inr [DECOUPLED_FUNCTION_PATH \<mapsto> shifted_code]
    \<and> import_result (working shifted_code) = Inr shifted_code
    \<and> decoupled_evaluate sphere shifted_code z [1, 1] = Inr (Num 8)
    \<and> fst (parallel_evaluate sphere (working shifted_code) shifted [[1, 1]] None zs [0]
             Map.empty) = Inr [Num 8]"
proof -
  let ?shifted = "sphere2\<lparr>optimal_solution_position := Some (Point [1, 1]), shift := [1, 1]\<rparr>"
  have a: "apply_shift sphere2 [1, 1] = Inr ?shifted"
    by (simp add: apply_shift_def sphere2_def iadd_def)
  have n: "noise_mean ?shifted = 0" "noise_variance ?shifted = 0"
    by (simp_all add: sphere2_def)
  have i: "fst (private_evaluate sphere ?shifted rng [1, 1]) = Inr (Array [Num 0, Num 0])"
    by (simp add: private_evaluate_no_variance sphere2_def sphere_def broadcast_def
        numeral_2_eq_2)
  have d: "private_decouple_evaluate (working shifted_code) ?shifted Map.empty
             = Inr [DECOUPLED_FUNCTION_PATH \<mapsto> shifted_code]"
    by (simp add: private_decouple_evaluate_def private_remove_self_references_def
        private_decouple_shift_noise_def working_def shifted_code_def sphere2_def truthy_def)
  have m: "import_result (working shifted_code) = Inr shifted_code"
    by (simp add: working_def)
  have s: "fst (stage (working shifted_code) ?shifted Map.empty) = Inr (Some shifted_code)"
    using stage_imported [OF d _ m] by simp
  have w: "decoupled_evaluate sphere shifted_code d [1, 1] = Inr (Num 8)" for d
    by (simp add: decoupled_evaluate_def shifted_code_def iadd_def sphere_def)
  have p: "fst (parallel_evaluate sphere (working shifted_code) ?shifted [[1, 1]] None zs [0]
                  Map.empty) = Inr [Num 8]"
    using parallel_evaluate_staged [OF s, of None sphere "[[1, 1]]" zs "[0]"] w
    by (simp add: ProcessPoolExecutor_def)
  from a n i d m w p show ?thesis by blast
qed

section \<open>Bounds check: what the code returns\<close>

text \<open>
  The expression that \<^verbatim>\<open>check_constraints\<close> means to return is true exactly when a
  coordinate lies outside its pair of bounds.
\<close>

lemma outside_any_iff:
  assumes "length position = length rows"
  shows "outside_any position rows =
           Inr (\<exists>i<length position.
                  position ! i < fst (rows ! i) \<or> position ! i > snd (rows ! i))"
proof -
  have "list_ex (\<lambda>(l, h). l \<or> h)
          (zip (map2 (<) position (map fst rows)) (map2 (>) position (map snd rows)))
        = (\<exists>i<length position.
             position ! i < fst (rows ! i) \<or> position ! i > snd (rows ! i))"
    using assms by (auto simp: list_ex_length)
  with assms show ?thesis
    by (simp add: outside_any_def broadcast_def)
qed

text \<open>
  The statement before it, \<^verbatim>\<open>if not self.search_space_bounds\<close>, asks an array of two or
  more elements for its truth value, which raises: with bounds defined the method never
  reaches its \<^verbatim>\<open>return\<close>.
\<close>

lemma check_constraints_raises:
  "check_constraints (self\<lparr>search_space_bounds := Some (row # rows)\<rparr>) position
     = Inl ValueError"
  by (simp add: check_constraints_def bounds_truth_def)

text \<open>
  C10. The instance of the scenarios, bounds \<^verbatim>\<open>[(-5,5),(-5,5)]\<close>: at \<^verbatim>\<open>[0, 0]\<close>, inside
  the bounds, and at \<^verbatim>\<open>[6, 0]\<close>, outside, the returned expression would be False and
  True, and \<^verbatim>\<open>check_constraints\<close> raises ValueError both times.
\<close>

theorem check_constraints_never_returns:
  "search_space_bounds sphere2 = Some [(-5, 5), (-5, 5)]
   \<and> outside_any [0, 0] [(-5, 5), (-5, 5)] = Inr False
   \<and> check_constraints sphere2 [0, 0] = Inl ValueError
   \<and> outside_any [6, 0] [(-5, 5), (-5, 5)] = Inr True
   \<and> check_constraints sphere2 [6, 0] = Inl ValueError"
  by (simp add: sphere2_def check_constraints_def bounds_truth_def outside_any_def
      broadcast_def)

section \<open>The staging file\<close>

lemma delete_removes:
  "private_delete_decoupled_evaluate fs DECOUPLED_FUNCTION_PATH = None"
  by (auto simp: private_delete_decoupled_evaluate_def)

lemma decouple_writes_fixed_path:
  assumes "private_decouple_evaluate env self fs = Inr fs'"
  shows "\<exists>code. fs' = fs(DECOUPLED_FUNCTION_PATH \<mapsto> code)"
  using assms
  by (auto simp: private_decouple_evaluate_def split: sum.splits option.splits)

lemma parallel_evaluate_removes:
  assumes "(\<exists>results. fst (parallel_evaluate evaluate env self positions max_workers zs order fs)
                        = Inr results)
           \<or> (\<exists>e. fst (stage env self fs) = Inl e \<and> is_Exception e)"
  shows "snd (parallel_evaluate evaluate env self positions max_workers zs order fs)
           DECOUPLED_FUNCTION_PATH = None"
  using assms
  by (cases "stage env self fs")
    (auto simp: parallel_evaluate_def Let_def delete_removes
      split: sum.splits option.splits if_splits)

text \<open>
  The import is not undone: where it writes a byte-code file, that file is there after the
  call, beside the files the call found.
\<close>

lemma import_leaves_bytecode:
  "snd (parallel_evaluate scaled_sum (working_scaled plain_code) scaled2 [[1, 2]] None zs [0]
          Map.empty)
     = [''./src/MDAF_benchmarks/tmp/__pycache__/decoupled_evaluate.pyc'' \<mapsto> plain_code]"
proof -
  let ?pyc = "''./src/MDAF_benchmarks/tmp/__pycache__/decoupled_evaluate.pyc''"
  have r: "private_remove_self_references scaled2
             \<lparr>has_return = True, references = [''scale'']\<rparr> = Inr Map.empty"
    by (auto simp: private_remove_self_references_def fun_eq_iff)
  have d: "private_decouple_evaluate (working_scaled plain_code) scaled2 Map.empty
             = Inr [DECOUPLED_FUNCTION_PATH \<mapsto> plain_code]"
    by (simp add: private_decouple_evaluate_def r private_decouple_shift_noise_def
        working_scaled_def plain_code_def scaled2_plain truthy_def)
  have st: "stage (working_scaled plain_code) scaled2 Map.empty
              = (Inr (Some plain_code),
                 [DECOUPLED_FUNCTION_PATH \<mapsto> plain_code, ?pyc \<mapsto> plain_code])"
    by (simp add: stage_def d) (simp add: working_scaled_def)
  have ne: "?pyc \<noteq> DECOUPLED_FUNCTION_PATH"
    by (simp add: DECOUPLED_FUNCTION_PATH_def)
  have t: "decoupled_evaluate scaled_sum plain_code z [1, 2] = Inl NameError" for z
    by (simp add: decoupled_evaluate_def plain_code_def scaled_sum_def literal_def)
  have "snd (parallel_evaluate scaled_sum (working_scaled plain_code) scaled2 [[1, 2]] None zs
               [0] Map.empty)
          = private_delete_decoupled_evaluate
              [DECOUPLED_FUNCTION_PATH \<mapsto> plain_code, ?pyc \<mapsto> plain_code]"
    by (simp add: parallel_evaluate_def st ProcessPoolExecutor_def t)
  also have "\<dots> = [?pyc \<mapsto> plain_code]"
    using ne by (auto simp: private_delete_decoupled_evaluate_def fun_eq_iff)
  finally show ?thesis .
qed

text \<open>
  C4, as amended. Every call stages under the one path \<^verbatim>\<open>DECOUPLED_FUNCTION_PATH\<close>,
  the same for all calls. The file is removed when staging (decoupling or the import)
  fails with an exception that \<^verbatim>\<open>except Exception\<close> catches, and after the results have
  been collected, with or without failed tasks: after a call that returns a results vector
  and after a call that fails so in staging the file does not exist, whether it existed
  before or not.
\<close>

theorem staging_file_fixed_and_removed:
  "(\<forall>fs'. private_decouple_evaluate env self fs = Inr fs' \<longrightarrow>
           (\<exists>code. fs' DECOUPLED_FUNCTION_PATH = Some code))
   \<and> ((\<exists>results. fst (parallel_evaluate evaluate env self positions max_workers zs order fs)
                     = Inr results)
        \<or> (\<exists>e. fst (stage env self fs) = Inl e \<and> is_Exception e) \<longrightarrow>
       snd (parallel_evaluate evaluate env self positions max_workers zs order fs)
         DECOUPLED_FUNCTION_PATH = None)"
proof -
  have "\<exists>code. fs' DECOUPLED_FUNCTION_PATH = Some code"
    if "private_decouple_evaluate env self fs = Inr fs'" for fs'
    using decouple_writes_fixed_path [OF that] by auto
  then show ?thesis
    using parallel_evaluate_removes [of evaluate env self positions max_workers zs order fs]
    by blast
qed

text \<open>
  A call with a failing task, started with the staging file of an earlier call in place:
  the file is written anew, the call returns, and the file is gone.
\<close>

theorem staging_file_fixed_and_removed_witness:
  "private_decouple_evaluate (working plain_code) sphere2
       [DECOUPLED_FUNCTION_PATH \<mapsto> shifted_code]
     = Inr [DECOUPLED_FUNCTION_PATH \<mapsto> plain_code]
   \<and> fst (parallel_evaluate sqrt_plus_reciprocal (working plain_code) sphere2
            [[1, 4], [0, 1]] None (\<lambda>i. 0) [0, 1] [DECOUPLED_FUNCTION_PATH \<mapsto> shifted_code])
       = Inr [Num 3, NaN]
   \<and> snd (parallel_evaluate sqrt_plus_reciprocal (working plain_code) sphere2
            [[1, 4], [0, 1]] None (\<lambda>i. 0) [0, 1] [DECOUPLED_FUNCTION_PATH \<mapsto> shifted_code])
         DECOUPLED_FUNCTION_PATH = None"
proof -
  let ?fs = "[DECOUPLED_FUNCTION_PATH \<mapsto> shifted_code]"
  let ?call = "parallel_evaluate sqrt_plus_reciprocal (working plain_code) sphere2
                 [[1, 4], [0, 1]] None (\<lambda>i. 0) [0, 1] ?fs"
  have d: "private_decouple_evaluate (working plain_code) sphere2 ?fs
             = Inr [DECOUPLED_FUNCTION_PATH \<mapsto> plain_code]"
    using decouple_working [of sphere2 plain_code ?fs] by (simp add: sphere2_plain)
  have s: "fst (stage (working plain_code) sphere2 ?fs) = Inr (Some plain_code)"
    by (simp add: stage_working sphere2_plain)
  have r: "fst ?call = Inr [Num 3, NaN]"
    using parallel_evaluate_staged
      [OF s, of None sqrt_plus_reciprocal "[[1, 4], [0, 1]]" "\<lambda>i. 0" "[0, 1]"]
    by (simp add: ProcessPoolExecutor_def decoupled_evaluate_def plain_code_def
        sqrt_plus_reciprocal_def)
  have gone: "snd ?call DECOUPLED_FUNCTION_PATH = None"
    using staging_file_fixed_and_removed
      [of "working plain_code" sphere2 ?fs sqrt_plus_reciprocal "[[1, 4], [0, 1]]" None
        "\<lambda>i. 0" "[0, 1]"]
      r
    by blast
  from d r gone show ?thesis by blast
qed

text \<open>
  The claim as stated fails on both counts. Two calls on different instances stage under
  the same path, the second replacing what the first has written; and a call whose
  \<^verbatim>\<open>max_workers\<close> is 0 leaves by the ValueError of the pool with the file still in
  place.
\<close>

theorem staging_path_is_shared:
  "snd (stage (working plain_code) sphere2 Map.empty)
     = [DECOUPLED_FUNCTION_PATH \<mapsto> plain_code]
   \<and> snd (stage (working shifted_code) (sphere2\<lparr>shift := [1, 1]\<rparr>)
            (snd (stage (working plain_code) sphere2 Map.empty)))
     = [DECOUPLED_FUNCTION_PATH \<mapsto> shifted_code]
   \<and> plain_code \<noteq> shifted_code
   \<and> fst (parallel_evaluate sphere (working plain_code) sphere2 [[0, 0]] (Some 0) (\<lambda>i. 0) [0]
            Map.empty) = Inl ValueError
   \<and> snd (parallel_evaluate sphere (working plain_code) sphere2 [[0, 0]] (Some 0) (\<lambda>i. 0) [0]
            Map.empty) DECOUPLED_FUNCTION_PATH = Some plain_code"
  by (simp add: parallel_evaluate_def stage_def private_decouple_evaluate_def
      private_remove_self_references_def private_decouple_shift_noise_def working_def
      plain_code_def shifted_code_def sphere2_def truthy_def ProcessPoolExecutor_def)

section \<open>What parallel evaluation checks of its arguments\<close>

lemma remove_self_references_ignores_ndim:
  "private_remove_self_references (self\<lparr>ndim := n\<rparr>) text
     = private_remove_self_references self text"
  by (simp add: private_remove_self_references_def cong: if_cong)

lemma decouple_shift_noise_ignores_ndim:
  "private_decouple_shift_noise (self\<lparr>ndim := n\<rparr>) code
     = private_decouple_shift_noise self code"
  by (simp add: private_decouple_shift_noise_def)

lemma decouple_evaluate_ignores_ndim:
  "private_decouple_evaluate env (self\<lparr>ndim := n\<rparr>) fs
     = private_decouple_evaluate env self fs"
  by (simp add: private_decouple_evaluate_def remove_self_references_ignores_ndim
      decouple_shift_noise_ignores_ndim split: sum.splits)

lemma stage_ignores_ndim: "stage env (self\<lparr>ndim := n\<rparr>) fs = stage env self fs"
  by (simp add: stage_def decouple_evaluate_ignores_ndim)

text \<open>
  C5, as amended. \<^verbatim>\<open>parallel_evaluate\<close> does not validate \<^verbatim>\<open>positions\<close>: \<^verbatim>\<open>ndim\<close>
  plays no part in the call, and once staging has succeeded an empty sequence gives an
  empty results vector. A \<^verbatim>\<open>max_workers\<close> below 1 is rejected, by the ValueError of the
  pool's constructor, after staging and before any task is submitted; \<^verbatim>\<open>max_workers\<close>
  may be left unspecified.
\<close>

theorem parallel_evaluate_checks_only_max_workers:
  "parallel_evaluate evaluate env (self\<lparr>ndim := n\<rparr>) positions max_workers zs order fs
     = parallel_evaluate evaluate env self positions max_workers zs order fs
   \<and> (\<forall>code. fst (stage env self fs) = Inr (Some code) \<longrightarrow>
         fst (parallel_evaluate evaluate env self [] None zs order fs) = Inr []
       \<and> (\<forall>w\<ge>1. fst (parallel_evaluate evaluate env self [] (Some w) zs order fs) = Inr [])
       \<and> (\<forall>w<1. fst (parallel_evaluate evaluate env self positions (Some w) zs order fs)
                   = Inl ValueError))"
proof -
  have "parallel_evaluate evaluate env (self\<lparr>ndim := n\<rparr>) positions max_workers zs order fs
          = parallel_evaluate evaluate env self positions max_workers zs order fs"
    by (simp add: parallel_evaluate_def stage_ignores_ndim)
  moreover have "fst (parallel_evaluate evaluate env self [] None zs order fs) = Inr []"
    if "fst (stage env self fs) = Inr (Some code)" for code
    using parallel_evaluate_staged [OF that, of None evaluate "[]" zs order]
    by (simp add: ProcessPoolExecutor_def collect_no_tasks)
  moreover have "fst (parallel_evaluate evaluate env self [] (Some w) zs order fs) = Inr []"
    if "fst (stage env self fs) = Inr (Some code)" and "w \<ge> 1" for code w
    using parallel_evaluate_staged [OF that(1), of "Some w" evaluate "[]" zs order] that(2)
    by (simp add: ProcessPoolExecutor_def collect_no_tasks)
  moreover have "fst (parallel_evaluate evaluate env self positions (Some w) zs order fs)
                   = Inl ValueError"
    if "fst (stage env self fs) = Inr (Some code)" and "w < 1" for code w
    using that
    by (cases "stage env self fs") (simp add: parallel_evaluate_def ProcessPoolExecutor_def)
  ultimately show ?thesis by blast
qed

theorem parallel_evaluate_checks_only_max_workers_witness:
  "fst (stage (working plain_code) sphere2 Map.empty) = Inr (Some plain_code)
   \<and> parallel_evaluate sphere (working plain_code) (sphere2\<lparr>ndim := 7\<rparr>) [[1, 1]] None
       (\<lambda>i. 0) [0] Map.empty
     = parallel_evaluate sphere (working plain_code) sphere2 [[1, 1]] None (\<lambda>i. 0) [0]
         Map.empty
   \<and> fst (parallel_evaluate sphere (working plain_code) sphere2 [] None (\<lambda>i. 0) []
            Map.empty) = Inr []
   \<and> (1 :: int) \<le> 4
   \<and> fst (parallel_evaluate sphere (working plain_code) sphere2 [] (Some 4) (\<lambda>i. 0) []
            Map.empty) = Inr []
   \<and> (0 :: int) < 1
   \<and> fst (parallel_evaluate sphere (working plain_code) sphere2 [[1, 1]] (Some 0) (\<lambda>i. 0) [0]
            Map.empty) = Inl ValueError"
proof -
  have s: "fst (stage (working plain_code) sphere2 Map.empty) = Inr (Some plain_code)"
    by (simp add: stage_working sphere2_plain)
  have a: "parallel_evaluate sphere (working plain_code) (sphere2\<lparr>ndim := 7\<rparr>) [[1, 1]] None
             (\<lambda>i. 0) [0] Map.empty
           = parallel_evaluate sphere (working plain_code) sphere2 [[1, 1]] None (\<lambda>i. 0) [0]
               Map.empty"
    using parallel_evaluate_checks_only_max_workers
      [where evaluate = sphere and env = "working plain_code" and self = sphere2 and n = 7
        and positions = "[[1, 1]]" and max_workers = None and zs = "\<lambda>i. 0"
        and order = "[0]" and fs = Map.empty]
    by blast
  have b: "fst (parallel_evaluate sphere (working plain_code) sphere2 [] None (\<lambda>i. 0) []
                  Map.empty) = Inr []"
    and c: "fst (parallel_evaluate sphere (working plain_code) sphere2 [] (Some 4) (\<lambda>i. 0) []
                  Map.empty) = Inr []"
    using parallel_evaluate_checks_only_max_workers
      [where evaluate = sphere and env = "working plain_code" and self = sphere2 and n = 7
        and positions = "[]" and max_workers = None and zs = "\<lambda>i. 0"
        and order = "[]" and fs = Map.empty] s
    by simp_all
  have d: "fst (parallel_evaluate sphere (working plain_code) sphere2 [[1, 1]] (Some 0)
                  (\<lambda>i. 0) [0] Map.empty) = Inl ValueError"
    using parallel_evaluate_checks_only_max_workers
      [where evaluate = sphere and env = "working plain_code" and self = sphere2 and n = 7
        and positions = "[[1, 1]]" and max_workers = None and zs = "\<lambda>i. 0"
        and order = "[0]" and fs = Map.empty] s
    by simp
  from s a b c d show ?thesis by simp
qed

text \<open>
  The claim as stated fails: with the sphere of dimension 2, an empty sequence of positions
  is not rejected but answered with an empty vector, and the position \<^verbatim>\<open>[1, 2, 3]\<close> of
  length 3 is dispatched and evaluated.
\<close>

theorem parallel_evaluate_accepts_unvalidated:
  "fst (parallel_evaluate sphere (working plain_code) sphere2 [] None (\<lambda>i. 0) [] Map.empty)
     = Inr []
   \<and> length [1, 2, 3 :: real] \<noteq> ndim sphere2
   \<and> fst (parallel_evaluate sphere (working plain_code) sphere2 [[1, 2, 3]] None (\<lambda>i. 0) [0]
            Map.empty) = Inr [Num 14]"
  by (simp add: parallel_evaluate_def stage_def private_decouple_evaluate_def
      private_remove_self_references_def private_decouple_shift_noise_def working_def
      plain_code_def sphere2_def truthy_def ProcessPoolExecutor_def decoupled_evaluate_def
      sphere_def)

section \<open>What saving and loading give back\<close>

text \<open>
  The attributes \<^verbatim>\<open>first_derivative\<close> and \<^verbatim>\<open>second_derivative\<close> that \<^verbatim>\<open>__init__\<close>
  stores are functions made at that call, not functions of the top level of a module.
\<close>

lemma init_derivatives:
  assumes "init settings = Inr self"
  shows "first_derivative self = grad" and "second_derivative self = hessian"
  using assms
  by (auto simp: init_def Let_def split: if_splits option.splits)

lemma pickle_dump_after_init:
  assumes "init settings = Inr self"
  shows "pickle_dump self = Inl AttributeError"
  using init_derivatives [OF assms]
  by (simp add: pickle_dump_def picklable_def grad_def)

text \<open>
  So \<^verbatim>\<open>save\<close> raises on every instance that \<^verbatim>\<open>__init__\<close> has made, whatever its
  other attributes, and leaves an empty file, which \<^verbatim>\<open>load\<close> cannot read.
\<close>

lemma save_after_init:
  assumes "init settings = Inr self"
  shows "save self path fs = (Inl AttributeError, fs(path \<mapsto> Empty))"
    and "load path (snd (save self path fs)) = Inl EOFError"
  using pickle_dump_after_init [OF assms]
  by (simp_all add: save_def load_def)

text \<open>
  An object whose function attributes are functions of a module comes back from the file
  as it was stored; no instance made by \<^verbatim>\<open>__init__\<close> is of this kind.
\<close>

lemma load_after_save:
  assumes "picklable (first_derivative self)" and "picklable (second_derivative self)"
  shows "fst (save self path fs) = Inr ()"
    and "load path (snd (save self path fs)) = Inr self"
  using assms by (simp_all add: save_def load_def pickle_dump_def)

text \<open>
  C9. The round trip of \<^verbatim>\<open>save\<close> and \<^verbatim>\<open>load\<close> does not give back an instance to
  evaluate. The instance of the scenarios, as \<^verbatim>\<open>__init__\<close> leaves it, saved to a path
  that does not exist yet: \<^verbatim>\<open>save\<close> raises on the stored derivative, the file it has
  opened stays behind, empty, and \<^verbatim>\<open>load\<close> of that path raises EOFError.
\<close>

theorem save_raises_on_derivatives:
  "init sphere2 = Inr sphere2
   \<and> call sphere sphere2 [1, 1] = Inr (Num 2)
   \<and> fst (save sphere2 ''objective.pkl'' Map.empty) = Inl AttributeError
   \<and> snd (save sphere2 ''objective.pkl'' Map.empty) = [''objective.pkl'' \<mapsto> Empty]
   \<and> load ''objective.pkl'' (snd (save sphere2 ''objective.pkl'' Map.empty)) = Inl EOFError"
proof -
  have "call sphere sphere2 [1, 1] = Inr (Num 2)"
    by (simp add: call_def sphere_def)
  then show ?thesis
    using init_sphere2 save_after_init [OF init_sphere2, of "''objective.pkl''" Map.empty]
    by simp
qed

end
